theory Spec2Isabelle
  imports Complex_Main
begin

section \<open>Values, exceptions and the outside world\<close>

text \<open>
  The exceptions that can reach a caller of \<^verbatim>\<open>mini_profiler.py\<close>. \<open>OSQueryError\<close> stands for
  whatever psutil raises when the process's memory information cannot be read;
  \<open>InvalidConfigError\<close> is the kind the specification names for a bad interval (no statement
  of the source raises it); \<open>WorkFailure\<close> is an exception raised by the profiled function or
  block, with its message. The remaining ones are raised by Python's built-ins and by a
  missing attribute.
\<close>

datatype exc =
    OSQueryError
  | InvalidConfigError
  | WorkFailure string
  | IndexError
  | ValueError
  | TypeError
  | ZeroDivisionError
  | AttributeError

text \<open>
  A Python value as the wrapper sees it: a number; the list of (memory, timestamp) pairs
  that \<^verbatim>\<open>memory_usage\<close> builds when it is called with \<^verbatim>\<open>timestamps=True\<close>; or any other
  object, which supports no ordering and no arithmetic.
\<close>

datatype 'r pyval = Num real | Samples "(real \<times> real) list" | Obj 'r

text \<open>
  The float operations that the function-scope wrapper applies to two numbers. They are
  parameters of the model, so that nothing proved below depends on how they round.
\<close>

record float_ops =
  f_add :: "real \<Rightarrow> real \<Rightarrow> real"
  f_div :: "real \<Rightarrow> real \<Rightarrow> real"
  f_sub :: "real \<Rightarrow> real \<Rightarrow> real"

record mem_info =
  rss :: nat
  vms :: nat

text \<open>The lines handed to \<^verbatim>\<open>logger.info\<close>, with the number each one formats.\<close>

datatype log_line =
    FunctionHeader string
  | BlockHeader
  | Rule
  | InitialMemory real
  | PeakMemory real
  | AverageMemory real
  | FinalMemory real
  | MemoryIncrease real
  | Duration real

text \<open>
  The world outside the program. The \<open>n\<close>-th call of \<^verbatim>\<open>memory_info()\<close>,
  \<^verbatim>\<open>memory_percent()\<close> and \<^verbatim>\<open>time.time()\<close> is answered by \<open>mem_src n\<close>,
  \<open>pct_src n\<close> and \<open>clock_src n\<close> (\<open>None\<close>: the query fails); the counters say how many calls
  have been made, and \<open>log\<close> holds the emitted log lines, oldest first.
\<close>

record world =
  mem_src :: "nat \<Rightarrow> mem_info option"
  pct_src :: "nat \<Rightarrow> real option"
  clock_src :: "nat \<Rightarrow> real"
  mem_calls :: nat
  pct_calls :: nat
  clock_calls :: nat
  log :: "log_line list"

type_synonym 'a action = "world \<Rightarrow> (exc + 'a) \<times> world"

definition and_then :: "'a action \<Rightarrow> ('a \<Rightarrow> 'b action) \<Rightarrow> 'b action" where
  "and_then m f w = (case m w of (Inl e, w') \<Rightarrow> (Inl e, w') | (Inr x, w') \<Rightarrow> f x w')"

definition ret :: "'a \<Rightarrow> 'a action" where
  "ret x w = (Inr x, w)"

definition of_result :: "exc + 'a \<Rightarrow> 'a action" where
  "of_result r w = (r, w)"

text \<open>\<^verbatim>\<open>psutil.Process().memory_info()\<close>\<close>

definition memory_info :: "mem_info action" where
  "memory_info w =
     ((case mem_src w (mem_calls w) of None \<Rightarrow> Inl OSQueryError | Some mi \<Rightarrow> Inr mi),
      w\<lparr>mem_calls := Suc (mem_calls w)\<rparr>)"

text \<open>\<^verbatim>\<open>process.memory_percent()\<close>\<close>

definition memory_percent :: "real action" where
  "memory_percent w =
     ((case pct_src w (pct_calls w) of None \<Rightarrow> Inl OSQueryError | Some p \<Rightarrow> Inr p),
      w\<lparr>pct_calls := Suc (pct_calls w)\<rparr>)"

text \<open>\<^verbatim>\<open>time.time()\<close>\<close>

definition time_time :: "real action" where
  "time_time w = (Inr (clock_src w (clock_calls w)), w\<lparr>clock_calls := Suc (clock_calls w)\<rparr>)"

text \<open>\<^verbatim>\<open>mem_info.rss / 1024 / 1024\<close>\<close>

definition to_mb :: "nat \<Rightarrow> real" where
  "to_mb b = real b / 1024 / 1024"

text \<open>
  The profiler object. \<^verbatim>\<open>__init__\<close> only configures the logger; \<open>info_enabled\<close> says
  whether that logger passes records of level INFO.
\<close>

record memory_profiler =
  info_enabled :: bool

definition logger_info :: "memory_profiler \<Rightarrow> log_line \<Rightarrow> unit action" where
  "logger_info self l w = (Inr (), if info_enabled self then w\<lparr>log := log w @ [l]\<rparr> else w)"

fun log_all :: "memory_profiler \<Rightarrow> log_line list \<Rightarrow> unit action" where
  "log_all self [] = ret ()"
| "log_all self (l # ls) = and_then (logger_info self l) (\<lambda>_. log_all self ls)"

section \<open>Python built-ins used by the wrapper\<close>

text \<open>
  \<^verbatim>\<open>a > b\<close>: numbers by value, tuples and lists by their first differing item and then
  by length; anything else is not ordered.
\<close>

fun pair_gt :: "real \<times> real \<Rightarrow> real \<times> real \<Rightarrow> bool" where
  "pair_gt (a, b) (c, d) = (if a = c then b > d else a > c)"

fun samples_gt :: "(real \<times> real) list \<Rightarrow> (real \<times> real) list \<Rightarrow> bool" where
  "samples_gt [] ys = False"
| "samples_gt (x # xs) [] = True"
| "samples_gt (x # xs) (y # ys) = (if x = y then samples_gt xs ys else pair_gt x y)"

fun py_gt :: "'r pyval \<Rightarrow> 'r pyval \<Rightarrow> exc + bool" where
  "py_gt (Num a) (Num b) = Inr (a > b)"
| "py_gt (Samples a) (Samples b) = Inr (samples_gt a b)"
| "py_gt _ _ = Inl TypeError"

text \<open>
  \<^verbatim>\<open>max(xs)\<close>: \<^verbatim>\<open>ValueError\<close> on an empty sequence; otherwise the first item is the
  candidate and each later item replaces it when it compares greater.
\<close>

fun py_max_from :: "'r pyval \<Rightarrow> 'r pyval list \<Rightarrow> exc + 'r pyval" where
  "py_max_from m [] = Inr m"
| "py_max_from m (x # xs) =
     (case py_gt x m of Inl e \<Rightarrow> Inl e | Inr b \<Rightarrow> py_max_from (if b then x else m) xs)"

definition py_max :: "'r pyval list \<Rightarrow> exc + 'r pyval" where
  "py_max xs = (case xs of [] \<Rightarrow> Inl ValueError | x # rest \<Rightarrow> py_max_from x rest)"

text \<open>
  \<^verbatim>\<open>a + b\<close>: two numbers are added as floats, two lists are concatenated; a number and a
  list cannot be added.
\<close>

fun py_add :: "float_ops \<Rightarrow> 'r pyval \<Rightarrow> 'r pyval \<Rightarrow> exc + 'r pyval" where
  "py_add ops (Num a) (Num b) = Inr (Num (f_add ops a b))"
| "py_add ops (Samples a) (Samples b) = Inr (Samples (a @ b))"
| "py_add ops _ _ = Inl TypeError"

text \<open>\<^verbatim>\<open>sum(xs)\<close>: starts from the integer 0 and adds the items from left to right.\<close>

fun py_sum_from :: "float_ops \<Rightarrow> 'r pyval \<Rightarrow> 'r pyval list \<Rightarrow> exc + 'r pyval" where
  "py_sum_from ops acc [] = Inr acc"
| "py_sum_from ops acc (x # xs) =
     (case py_add ops acc x of Inl e \<Rightarrow> Inl e | Inr acc' \<Rightarrow> py_sum_from ops acc' xs)"

definition py_sum :: "float_ops \<Rightarrow> 'r pyval list \<Rightarrow> exc + 'r pyval" where
  "py_sum ops xs = py_sum_from ops (Num 0) xs"

text \<open>\<^verbatim>\<open>s / len(xs)\<close>: the divisor is a length.\<close>

fun py_truediv_len :: "float_ops \<Rightarrow> 'r pyval \<Rightarrow> nat \<Rightarrow> exc + real" where
  "py_truediv_len ops (Num s) n =
     (if n = 0 then Inl ZeroDivisionError else Inr (f_div ops s (real n)))"
| "py_truediv_len ops _ n = Inl TypeError"

text \<open>\<^verbatim>\<open>a - b\<close> with a float on the right.\<close>

fun py_sub :: "float_ops \<Rightarrow> 'r pyval \<Rightarrow> real \<Rightarrow> exc + real" where
  "py_sub ops (Num a) b = Inr (f_sub ops a b)"
| "py_sub ops _ b = Inl TypeError"

text \<open>\<^verbatim>\<open>a - b\<close> where \<open>b\<close> is an attribute that may still be \<^verbatim>\<open>None\<close>.\<close>

fun sub_attr :: "real \<Rightarrow> real option \<Rightarrow> exc + real" where
  "sub_attr a (Some b) = Inr (a - b)"
| "sub_attr a None = Inl TypeError"

text \<open>The format \<^verbatim>\<open>{x:.2f}\<close> accepts a number only.\<close>

fun fmt_float :: "'r pyval \<Rightarrow> exc + real" where
  "fmt_float (Num a) = Inr a"
| "fmt_float _ = Inl TypeError"

text \<open>
  \<^verbatim>\<open>func.__name__\<close>: a callable need not have the attribute (a \<^verbatim>\<open>functools.partial\<close> has
  none); \<open>None\<close> stands for its absence.
\<close>

fun func_name :: "string option \<Rightarrow> exc + string" where
  "func_name (Some n) = Inr n"
| "func_name None = Inl AttributeError"

fun fmt_attr :: "real option \<Rightarrow> exc + real" where
  "fmt_attr (Some a) = Inr a"
| "fmt_attr None = Inl TypeError"

section \<open>The function-scope wrapper\<close>

text \<open>The dictionary \<^verbatim>\<open>profile_data\<close>, one field per key.\<close>

record 'r profile_data =
  initial_mem :: real
  peak_mem :: "'r pyval"
  avg_mem :: real
  mem_diff :: real
  duration :: real
  timestamps :: "'r pyval"
  measurements :: "'r pyval list"

text \<open>
  \<^verbatim>\<open>memory_usage\<close> comes from the library memory_profiler and is a parameter of the
  model: given the target to run, and the interval, it acts on the world and yields a
  tuple of values or raises.
\<close>

type_synonym 'r memory_usage = "'r pyval action \<Rightarrow> real \<Rightarrow> 'r pyval list action"

text \<open>
  \<^verbatim>\<open>result[:-1], result[0], result[-1]\<close>: the slice never fails, indexing an empty
  sequence raises \<^verbatim>\<open>IndexError\<close>.
\<close>

definition unpack :: "'r pyval list \<Rightarrow> exc + ('r pyval list \<times> 'r pyval \<times> 'r pyval)" where
  "unpack result =
     (case result of [] \<Rightarrow> Inl IndexError | x # _ \<Rightarrow> Inr (butlast result, x, last result))"

text \<open>
  \<^verbatim>\<open>wrapper(*args, **kwargs)\<close> of \<^verbatim>\<open>profile_function(interval)(func)\<close>. \<open>fname\<close> is
  \<^verbatim>\<open>func.__name__\<close>, read when the first log line is formatted, after the work has run
  and the statistics have been computed.
\<close>

definition wrapper ::
  "memory_profiler \<Rightarrow> float_ops \<Rightarrow> real \<Rightarrow> 'r memory_usage \<Rightarrow> string option
     \<Rightarrow> ('a \<Rightarrow> 'r pyval action) \<Rightarrow> 'a \<Rightarrow> ('r pyval \<times> 'r profile_data) action" where
  "wrapper self ops interval memory_usage fname func args =
     and_then memory_info (\<lambda>mi.
     and_then time_time (\<lambda>start_time.
     and_then (memory_usage (func args) interval) (\<lambda>result.
     and_then (of_result (unpack result)) (\<lambda>(mem_measurements, tstamps, return_value).
     and_then (of_result (py_max mem_measurements)) (\<lambda>max_mem.
     and_then (of_result (py_sum ops mem_measurements)) (\<lambda>total_mem.
     and_then (of_result (py_truediv_len ops total_mem (length mem_measurements))) (\<lambda>avg.
     and_then (of_result (py_sub ops max_mem (to_mb (rss mi)))) (\<lambda>diff.
     and_then time_time (\<lambda>end_time.
     and_then (of_result (func_name fname)) (\<lambda>name.
     and_then (of_result (fmt_float max_mem)) (\<lambda>peak.
     and_then (log_all self
        [FunctionHeader name, Rule, InitialMemory (to_mb (rss mi)), PeakMemory peak,
         AverageMemory avg, MemoryIncrease diff, Duration (f_sub ops end_time start_time)]) (\<lambda>_.
     ret (return_value,
          \<lparr>initial_mem = to_mb (rss mi), peak_mem = max_mem, avg_mem = avg, mem_diff = diff,
           duration = f_sub ops end_time start_time, timestamps = tstamps,
           measurements = mem_measurements\<rparr>)))))))))))))"

text \<open>
  \<^verbatim>\<open>profile_function(interval)\<close> returns the decorator and the decorator returns the
  wrapper; neither has a statement that can raise, and neither touches the world.
\<close>

definition profile_function ::
  "memory_profiler \<Rightarrow> float_ops \<Rightarrow> real \<Rightarrow> 'r memory_usage \<Rightarrow> string option
     \<Rightarrow> ('a \<Rightarrow> 'r pyval action) \<Rightarrow> 'a \<Rightarrow> ('r pyval \<times> 'r profile_data) action" where
  "profile_function self ops interval memory_usage =
     (\<lambda>fname func. wrapper self ops interval memory_usage fname func)"

section \<open>The snapshot\<close>

definition memory_snapshot :: "(string \<times> real) list action" where
  "memory_snapshot =
     and_then memory_info (\<lambda>mi.
     and_then memory_percent (\<lambda>p.
     ret [(''rss'', to_mb (rss mi)), (''vms'', to_mb (vms mi)), (''percent'', p)]))"

section \<open>The block-scope wrapper\<close>

record block_profiler =
  bp_interval :: real
  bp_start_mem :: "real option"
  bp_measurements :: "real list"
  bp_start_time :: "real option"

text \<open>\<^verbatim>\<open>profile_block(interval)\<close>: \<^verbatim>\<open>BlockProfiler(interval, self.logger)\<close>.\<close>

definition profile_block :: "memory_profiler \<Rightarrow> real \<Rightarrow> block_profiler" where
  "profile_block self interval =
     \<lparr>bp_interval = interval, bp_start_mem = None, bp_measurements = [], bp_start_time = None\<rparr>"

text \<open>\<^verbatim>\<open>__enter__\<close>: returns the object itself, with the two attributes set.\<close>

definition block_enter :: "block_profiler \<Rightarrow> block_profiler action" where
  "block_enter h =
     and_then memory_info (\<lambda>mi.
     and_then time_time (\<lambda>t.
     ret (h\<lparr>bp_start_mem := Some (to_mb (rss mi)), bp_start_time := Some t\<rparr>)))"

text \<open>
  \<^verbatim>\<open>__exit__\<close>: its three arguments are not used. It returns a dictionary, here the list
  of its items in the order of the literal.
\<close>

definition block_exit :: "memory_profiler \<Rightarrow> block_profiler \<Rightarrow> (string \<times> real) list action" where
  "block_exit self h =
     and_then time_time (\<lambda>end_time.
     and_then memory_info (\<lambda>mi.
     and_then (of_result (sub_attr end_time (bp_start_time h))) (\<lambda>dur.
     and_then (of_result (sub_attr (to_mb (rss mi)) (bp_start_mem h))) (\<lambda>diff.
     and_then (of_result (fmt_attr (bp_start_mem h))) (\<lambda>start.
     and_then (log_all self
        [BlockHeader, Rule, InitialMemory start, FinalMemory (to_mb (rss mi)),
         MemoryIncrease diff, Duration dur]) (\<lambda>_.
     ret [(''start_mem'', start), (''end_mem'', to_mb (rss mi)),
          (''mem_diff'', diff), (''duration'', dur)]))))))"

text \<open>The truth value of a dictionary: false only when it is empty.\<close>

definition dict_truthy :: "('k \<times> 'v) list \<Rightarrow> bool" where
  "dict_truthy d = (d \<noteq> [])"

text \<open>
  Python's \<^verbatim>\<open>with mgr as h: body\<close>. \<^verbatim>\<open>__enter__\<close> runs first; if it raises, neither the
  body nor \<^verbatim>\<open>__exit__\<close> runs. Otherwise the body runs and then \<^verbatim>\<open>__exit__\<close>, once. When the
  body raised, the exception is re-raised unless \<^verbatim>\<open>__exit__\<close> returned a true value;
  when the body ended normally the value of \<^verbatim>\<open>__exit__\<close> is dropped. An exception of
  \<^verbatim>\<open>__exit__\<close> itself replaces the body's. The result is the outcome of the statement and
  the manager object as the caller holds it afterwards.
\<close>

definition with_stmt ::
  "memory_profiler \<Rightarrow> block_profiler \<Rightarrow> (block_profiler \<Rightarrow> unit action) \<Rightarrow> world
     \<Rightarrow> ((exc + unit) \<times> block_profiler) \<times> world" where
  "with_stmt self mgr body w =
     (case block_enter mgr w of
        (Inl e, w1) \<Rightarrow> ((Inl e, mgr), w1)
      | (Inr h, w1) \<Rightarrow>
          (case body h w1 of
             (r, w2) \<Rightarrow>
               (case block_exit self h w2 of
                  (Inl e2, w3) \<Rightarrow> ((Inl e2, h), w3)
                | (Inr d, w3) \<Rightarrow>
                    (case r of
                       Inl e \<Rightarrow> if dict_truthy d then ((Inr (), h), w3) else ((Inl e, h), w3)
                     | Inr u \<Rightarrow> ((Inr (), h), w3)))))"

section \<open>The library call, and sample inputs\<close>

text \<open>
  What \<^verbatim>\<open>memory_usage((target, (), {}), interval=..., timestamps=True, retval=True)\<close> hands
  back, as the library documents it: with \<^verbatim>\<open>retval=True\<close> the return value is the pair of
  the memory usage and the value the target returned, and with \<^verbatim>\<open>timestamps=True\<close> the
  memory usage is a list of (memory, timestamp) pairs. The library runs the target at
  least once (it runs short work again, with a smaller interval, until it has enough
  samples) and lets an exception of the target through. The samples it collected and the
  number of further runs are given: they depend on the scheduling of its sampler.
\<close>

fun run_again :: "nat \<Rightarrow> 'a action \<Rightarrow> 'a action" where
  "run_again 0 target = target"
| "run_again (Suc n) target = and_then target (\<lambda>_. run_again n target)"

definition library_memory_usage :: "nat \<Rightarrow> (real \<times> real) list \<Rightarrow> 'r memory_usage" where
  "library_memory_usage reruns samples target interval =
     and_then (run_again reruns target) (\<lambda>v. ret [Samples samples, v])"

text \<open>
  A function that returns \<open>v\<close> whatever its argument, one that returns its argument, one
  that takes a snapshot before it returns \<open>v\<close>, and a block that raises.
\<close>

definition work_returning :: "'r pyval \<Rightarrow> 'a \<Rightarrow> 'r pyval action" where
  "work_returning v args w = (Inr v, w)"

definition echo_work :: "'r pyval \<Rightarrow> 'r pyval action" where
  "echo_work args w = (Inr args, w)"

definition snapshot_work :: "'r pyval \<Rightarrow> 'a \<Rightarrow> 'r pyval action" where
  "snapshot_work v args = and_then memory_snapshot (\<lambda>_. ret v)"

definition failing_body :: "block_profiler \<Rightarrow> unit action" where
  "failing_body h w = (Inl (WorkFailure ''boom''), w)"

text \<open>A block that takes a snapshot, and one that does nothing.\<close>

definition snapshot_body :: "block_profiler \<Rightarrow> unit action" where
  "snapshot_body h = and_then memory_snapshot (\<lambda>_. ret ())"

definition idle_body :: "block_profiler \<Rightarrow> unit action" where
  "idle_body h = ret ()"

text \<open>
  A world in which the first memory query reports 100 MB resident and every later one
  \<open>later_rss\<close> bytes, the \<open>n\<close>-th clock reading is \<open>n * step\<close>, and the percentage query
  answers \<open>pct\<close>.
\<close>

definition example_world :: "nat \<Rightarrow> real \<Rightarrow> real option \<Rightarrow> world" where
  "example_world later_rss step pct =
     \<lparr>mem_src = (\<lambda>n. Some \<lparr>rss = (if n = 0 then 104857600 else later_rss), vms = 209715200\<rparr>),
      pct_src = (\<lambda>n. pct),
      clock_src = (\<lambda>n. real n * step),
      mem_calls = 0, pct_calls = 0, clock_calls = 0, log = []\<rparr>"

definition example_profiler :: memory_profiler where
  "example_profiler = \<lparr>info_enabled = True\<rparr>"

text \<open>Float operations for the sample runs, none of which reaches one of them.\<close>

definition example_ops :: float_ops where
  "example_ops = \<lparr>f_add = (\<lambda>a b. a + b), f_div = (\<lambda>a b. a / b), f_sub = (\<lambda>a b. a - b)\<rparr>"

section \<open>Running the actions\<close>

text \<open>
  Each step of an action, as one rewrite: what the step yields and the world it leaves.
\<close>

lemma and_then_Inr_iff:
  "fst (and_then m f w) = Inr y \<longleftrightarrow> (\<exists>x w'. m w = (Inr x, w') \<and> fst (f x w') = Inr y)"
  by (auto simp: and_then_def split: prod.splits sum.splits)

lemma log_all_fst [simp]: "fst (log_all self ls w) = Inr ()"
  by (induction ls arbitrary: w) (simp_all add: ret_def and_then_def logger_info_def)

lemma log_all_snd:
  "snd (log_all self ls w) = (if info_enabled self then w\<lparr>log := log w @ ls\<rparr> else w)"
  by (induction ls arbitrary: w) (simp_all add: ret_def and_then_def logger_info_def)

lemma and_then_log_all:
  "and_then (log_all self ls) f w = f () (snd (log_all self ls w))"
proof -
  obtain w' where "log_all self ls w = (Inr (), w')"
    by (metis log_all_fst prod.collapse)
  then show ?thesis by (simp add: and_then_def)
qed

lemma and_then_of_result:
  "and_then (of_result (Inr x)) f w = f x w"
  "and_then (of_result (Inl e)) f w = (Inl e, w)"
  by (simp_all add: and_then_def of_result_def)

lemma and_then_memory_info:
  "and_then memory_info f w =
     (case mem_src w (mem_calls w) of
        None \<Rightarrow> (Inl OSQueryError, w\<lparr>mem_calls := Suc (mem_calls w)\<rparr>)
      | Some mi \<Rightarrow> f mi (w\<lparr>mem_calls := Suc (mem_calls w)\<rparr>))"
  by (simp add: and_then_def memory_info_def split: option.splits)

lemma and_then_memory_percent:
  "and_then memory_percent f w =
     (case pct_src w (pct_calls w) of
        None \<Rightarrow> (Inl OSQueryError, w\<lparr>pct_calls := Suc (pct_calls w)\<rparr>)
      | Some p \<Rightarrow> f p (w\<lparr>pct_calls := Suc (pct_calls w)\<rparr>))"
  by (simp add: and_then_def memory_percent_def split: option.splits)

lemma and_then_time_time:
  "and_then time_time f w = f (clock_src w (clock_calls w)) (w\<lparr>clock_calls := Suc (clock_calls w)\<rparr>)"
  by (simp add: and_then_def time_time_def)

lemma and_then_Inr: "m w = (Inr x, w') \<Longrightarrow> and_then m f w = f x w'"
  by (simp add: and_then_def)

lemma and_then_Inl: "m w = (Inl e, w') \<Longrightarrow> and_then m f w = (Inl e, w')"
  by (simp add: and_then_def)

lemmas run_simps = and_then_log_all and_then_of_result and_then_memory_info
  and_then_memory_percent and_then_time_time ret_def

lemmas example_defs = example_world_def example_profiler_def example_ops_def
  library_memory_usage_def work_returning_def echo_work_def snapshot_work_def failing_body_def
  snapshot_body_def idle_body_def

lemmas eval_defs = wrapper_def and_then_def ret_def of_result_def memory_info_def
  memory_percent_def time_time_def to_mb_def logger_info_def unpack_def py_max_def py_sum_def
  memory_snapshot_def profile_block_def block_enter_def block_exit_def dict_truthy_def
  with_stmt_def

section \<open>The errors of the built-ins\<close>

text \<open>
  Which exceptions each step of the wrapper can raise by itself.
\<close>

lemma py_gt_Inl: "py_gt x m = Inl e \<Longrightarrow> e = TypeError"
  by (cases x; cases m) simp_all

lemma py_max_from_Inl: "py_max_from m xs = Inl e \<Longrightarrow> e = TypeError"
proof (induction xs arbitrary: m)
  case Nil
  then show ?case by simp
next
  case (Cons x xs)
  show ?case
  proof (cases "py_gt x m")
    case (Inl e')
    with Cons.prems have "e' = e" by simp
    with Inl show ?thesis by (simp add: py_gt_Inl)
  next
    case (Inr b)
    with Cons.prems have "py_max_from (if b then x else m) xs = Inl e" by simp
    then show ?thesis by (rule Cons.IH)
  qed
qed

lemma py_max_Inl: "py_max xs = Inl e \<Longrightarrow> e = ValueError \<or> e = TypeError"
  by (cases xs) (auto simp: py_max_def dest: py_max_from_Inl)

lemma py_add_Inl: "py_add ops a x = Inl e \<Longrightarrow> e = TypeError"
  by (cases a; cases x) simp_all

lemma py_sum_from_Inl: "py_sum_from ops acc xs = Inl e \<Longrightarrow> e = TypeError"
proof (induction xs arbitrary: acc)
  case Nil
  then show ?case by simp
next
  case (Cons x xs)
  show ?case
  proof (cases "py_add ops acc x")
    case (Inl e')
    with Cons.prems have "e' = e" by simp
    with Inl show ?thesis by (simp add: py_add_Inl)
  next
    case (Inr a)
    with Cons.prems have "py_sum_from ops a xs = Inl e" by simp
    then show ?thesis by (rule Cons.IH)
  qed
qed

lemma py_sum_Inl: "py_sum ops xs = Inl e \<Longrightarrow> e = TypeError"
  unfolding py_sum_def by (rule py_sum_from_Inl)

lemma py_truediv_len_Inl:
  "py_truediv_len ops t n = Inl e \<Longrightarrow> e = ZeroDivisionError \<or> e = TypeError"
  by (cases t) (auto split: if_splits)

lemma py_sub_Inl: "py_sub ops a b = Inl e \<Longrightarrow> e = TypeError"
  by (cases a) simp_all

lemma fmt_float_Inl: "fmt_float a = Inl e \<Longrightarrow> e = TypeError"
  by (cases a) simp_all

lemma func_name_Inl: "func_name n = Inl e \<Longrightarrow> e = AttributeError"
  by (cases n) simp_all

lemma unpack_Inl: "unpack result = Inl e \<Longrightarrow> e = IndexError"
  by (cases result) (simp_all add: unpack_def)

section \<open>What a call of the wrapper yields\<close>

lemma run_again_work_returning: "run_again n (work_returning v a) w = (Inr v, w)"
  by (induction n arbitrary: w) (simp_all add: work_returning_def and_then_def)

text \<open>
  On the pair that \<^verbatim>\<open>memory_usage\<close> returns, \<^verbatim>\<open>result[:-1]\<close> is the one-element tuple
  holding the list of samples: \<^verbatim>\<open>max\<close> returns that list and \<^verbatim>\<open>sum\<close>, which starts from
  0, raises. This is the outcome of every call whose work returns.
\<close>

lemma wrapper_on_library_pair:
  assumes "mem_src w (mem_calls w) = Some mi"
    and "mu (func args) interval
           (w\<lparr>mem_calls := Suc (mem_calls w), clock_calls := Suc (clock_calls w)\<rparr>)
         = (Inr [Samples s, v], w3)"
  shows "wrapper self ops interval mu fname func args w = (Inl TypeError, w3)"
  unfolding wrapper_def using assms
  by (simp add: run_simps and_then_Inr unpack_def py_max_def py_sum_def del: log_all.simps)

text \<open>
  Once \<^verbatim>\<open>memory_usage\<close> has returned, no step of the wrapper raises
  \<^verbatim>\<open>InvalidConfigError\<close>; so that exception can only come out of \<^verbatim>\<open>memory_usage\<close>.
\<close>

lemma wrapper_after_memory_usage:
  assumes mi: "mem_src w (mem_calls w) = Some mi"
    and mu: "mu (func args) interval
           (w\<lparr>mem_calls := Suc (mem_calls w), clock_calls := Suc (clock_calls w)\<rparr>)
         = (Inr result, w3)"
  shows "fst (wrapper self ops interval mu fname func args w) \<noteq> Inl InvalidConfigError"
proof (cases "unpack result")
  case (Inl e)
  with mi mu have "fst (wrapper self ops interval mu fname func args w) = Inl e"
    by (simp add: wrapper_def run_simps and_then_Inr del: log_all.simps)
  with unpack_Inl[OF Inl] show ?thesis by simp
next
  case (Inr u)
  obtain mm ts rv where u: "u = (mm, ts, rv)" by (cases u)
  note un = Inr[unfolded u]
  show ?thesis
  proof (cases "py_max mm")
    case (Inl e)
    with mi mu un have "fst (wrapper self ops interval mu fname func args w) = Inl e"
      by (simp add: wrapper_def run_simps and_then_Inr del: log_all.simps)
    with py_max_Inl[OF Inl] show ?thesis by auto
  next
    case mx: (Inr max_mem)
    show ?thesis
    proof (cases "py_sum ops mm")
      case (Inl e)
      with mi mu un mx have "fst (wrapper self ops interval mu fname func args w) = Inl e"
        by (simp add: wrapper_def run_simps and_then_Inr del: log_all.simps)
      with py_sum_Inl[OF Inl] show ?thesis by simp
    next
      case sm: (Inr tot)
      show ?thesis
      proof (cases "py_truediv_len ops tot (length mm)")
        case (Inl e)
        with mi mu un mx sm have "fst (wrapper self ops interval mu fname func args w) = Inl e"
          by (simp add: wrapper_def run_simps and_then_Inr del: log_all.simps)
        with py_truediv_len_Inl[OF Inl] show ?thesis by auto
      next
        case av: (Inr avg)
        show ?thesis
        proof (cases "py_sub ops max_mem (to_mb (rss mi))")
          case (Inl e)
          with mi mu un mx sm av
          have "fst (wrapper self ops interval mu fname func args w) = Inl e"
            by (simp add: wrapper_def run_simps and_then_Inr del: log_all.simps)
          with py_sub_Inl[OF Inl] show ?thesis by simp
        next
          case df: (Inr diff)
          show ?thesis
          proof (cases "func_name fname")
            case (Inl e)
            with mi mu un mx sm av df
            have "fst (wrapper self ops interval mu fname func args w) = Inl e"
              by (simp add: wrapper_def run_simps and_then_Inr del: log_all.simps)
            with func_name_Inl[OF Inl] show ?thesis by simp
          next
            case nm: (Inr name)
            show ?thesis
            proof (cases "fmt_float max_mem")
              case (Inl e)
              with mi mu un mx sm av df nm
              have "fst (wrapper self ops interval mu fname func args w) = Inl e"
                by (simp add: wrapper_def run_simps and_then_Inr del: log_all.simps)
              with fmt_float_Inl[OF Inl] show ?thesis by simp
            next
              case (Inr peak)
              with mi mu un mx sm av df nm show ?thesis
                by (simp add: wrapper_def run_simps and_then_Inr del: log_all.simps)
            qed
          qed
        qed
      qed
    qed
  qed
qed

lemma wrapper_invalid_config_origin:
  assumes "fst (wrapper self ops interval mu fname func args w) = Inl InvalidConfigError"
  shows "\<exists>w'. fst (mu (func args) interval w') = Inl InvalidConfigError"
proof (cases "mem_src w (mem_calls w)")
  case None
  with assms show ?thesis by (simp add: wrapper_def run_simps)
next
  case (Some mi)
  let ?w2 = "w\<lparr>mem_calls := Suc (mem_calls w), clock_calls := Suc (clock_calls w)\<rparr>"
  obtain r w3 where mu: "mu (func args) interval ?w2 = (r, w3)"
    by (cases "mu (func args) interval ?w2")
  show ?thesis
  proof (cases r)
    case (Inl e)
    with Some mu have "fst (wrapper self ops interval mu fname func args w) = Inl e"
      by (simp add: wrapper_def run_simps and_then_Inl)
    with assms have "e = InvalidConfigError" by simp
    with Inl mu have "fst (mu (func args) interval ?w2) = Inl InvalidConfigError" by simp
    then show ?thesis by (rule exI)
  next
    case (Inr result)
    with mu have "mu (func args) interval ?w2 = (Inr result, w3)" by simp
    from wrapper_after_memory_usage[where mu=mu and func=func and args=args, OF Some this] assms
    show ?thesis by simp
  qed
qed

section \<open>The interval in the block scope\<close>

text \<open>
  \<^verbatim>\<open>__enter__\<close> carries the interval along untouched and \<^verbatim>\<open>__exit__\<close> does not look at it.
\<close>

lemma block_enter_interval:
  "block_enter (h\<lparr>bp_interval := k\<rparr>) w =
     (case block_enter h w of
        (Inl e, w') \<Rightarrow> (Inl e, w')
      | (Inr h', w') \<Rightarrow> (Inr (h'\<lparr>bp_interval := k\<rparr>), w'))"
  by (simp add: block_enter_def run_simps split: option.splits)

lemma block_exit_interval: "block_exit self (h\<lparr>bp_interval := k\<rparr>) = block_exit self h"
  by (simp add: block_exit_def)

lemma with_stmt_interval:
  assumes "\<forall>h k. body (h\<lparr>bp_interval := k\<rparr>) = body h"
  shows "with_stmt self (mgr\<lparr>bp_interval := k\<rparr>) body w =
     (case with_stmt self mgr body w of ((r, h), w') \<Rightarrow> ((r, h\<lparr>bp_interval := k\<rparr>), w'))"
proof (cases "block_enter mgr w")
  case (Pair r w1)
  show ?thesis
  proof (cases r)
    case (Inl e)
    with Pair show ?thesis by (simp add: with_stmt_def block_enter_interval)
  next
    case (Inr h)
    with Pair assms show ?thesis
      by (simp add: with_stmt_def block_enter_interval block_exit_interval
          split: prod.splits sum.splits)
  qed
qed

text \<open>
  The statement \<^verbatim>\<open>with\<close> over a \<^verbatim>\<open>BlockProfiler\<close> ends normally or with an error of
  the profiler's own queries; an exception of the body is never what comes out.
\<close>

lemma with_stmt_outcome:
  "fst (fst (with_stmt self mgr body w)) = Inr () \<or> fst (fst (with_stmt self mgr body w)) = Inl OSQueryError
   \<or> fst (fst (with_stmt self mgr body w)) = Inl TypeError"
proof (cases "block_enter mgr w")
  case (Pair r w1)
  show ?thesis
  proof (cases r)
    case (Inl e)
    with Pair have "e = OSQueryError"
      by (auto simp: block_enter_def run_simps split: option.splits)
    with Pair Inl show ?thesis by (simp add: with_stmt_def)
  next
    case (Inr h)
    obtain rb w2 where b: "body h w1 = (rb, w2)" by (cases "body h w1")
    obtain rx w3 where x: "block_exit self h w2 = (rx, w3)" by (cases "block_exit self h w2")
    show ?thesis
    proof (cases rx)
      case (Inl e2)
      with x have "e2 = OSQueryError \<or> e2 = TypeError"
        by (cases "bp_start_time h"; cases "bp_start_mem h")
           (auto simp: block_exit_def run_simps simp del: log_all.simps split: option.splits)
      with Pair Inr b x Inl show ?thesis by (auto simp: with_stmt_def)
    next
      case (Inr d)
      with x have "d \<noteq> []"
        by (cases "bp_start_time h"; cases "bp_start_mem h")
           (auto simp: block_exit_def run_simps simp del: log_all.simps split: option.splits)
      with Pair \<open>r = Inr h\<close> b x Inr show ?thesis
        by (cases rb) (simp_all add: with_stmt_def dict_truthy_def)
    qed
  qed
qed

lemma example_mem:
  "mem_src (example_world r s p) (mem_calls (example_world r s p)) = Some \<lparr>rss = 104857600, vms = 209715200\<rparr>"
  by (simp add: example_defs)

section \<open>The claims\<close>

subsection \<open>C1: an error raised inside the block\<close>

text \<open>
  C1 says that an error raised by the block under \<^verbatim>\<open>profile_block\<close> reaches the caller
  unchanged after the scope exits. In the code \<^verbatim>\<open>__exit__\<close> returns the summary dictionary,
  which has four keys and is therefore true, so the \<^verbatim>\<open>with\<close> statement suppresses the
  exception: the block that raises \<^verbatim>\<open>WorkFailure\<close> ends normally.
\<close>

theorem block_failure_swallowed:
  "fst (with_stmt example_profiler (profile_block example_profiler (1/10)) failing_body
         (example_world 125829120 2 (Some (3/2))))
   = (Inr (), \<lparr>bp_interval = 1/10, bp_start_mem = Some 100, bp_measurements = [],
               bp_start_time = Some 0\<rparr>)"
  by (simp add: eval_defs example_defs)

subsection \<open>C2: an interval that is not positive\<close>

text \<open>
  C2 says that an interval \<open>\<le> 0\<close> makes both factories fail with \<^verbatim>\<open>InvalidConfigError\<close>
  before any work runs. The code does not look at the interval. With interval 0 the
  wrapped function is run (the snapshot it takes is counted) and the call ends in the
  \<^verbatim>\<open>TypeError\<close> of \<^verbatim>\<open>sum\<close>, as it does for every interval; with interval -1 the block is
  run and the statement ends normally.
\<close>

theorem nonpositive_interval_counterexample:
  "fst (profile_function example_profiler example_ops 0
          (library_memory_usage 0 [(100, 0), (110, 1), (130, 2), (125, 3), (120, 4)])
          (Some ''work'') (snapshot_work (Obj ''done'')) ()
          (example_world 125829120 2 (Some (3/2)))) = Inl TypeError
   \<and> pct_calls (snd (profile_function example_profiler example_ops 0
          (library_memory_usage 0 [(100, 0), (110, 1), (130, 2), (125, 3), (120, 4)])
          (Some ''work'') (snapshot_work (Obj ''done'')) ()
          (example_world 125829120 2 (Some (3/2))))) = 1
   \<and> fst (fst (with_stmt example_profiler (profile_block example_profiler (- 1)) snapshot_body
         (example_world 125829120 2 (Some (3/2))))) = Inr ()
   \<and> pct_calls (snd (with_stmt example_profiler (profile_block example_profiler (- 1)) snapshot_body
         (example_world 125829120 2 (Some (3/2))))) = 1"
  by (simp add: profile_function_def eval_defs example_defs)

text \<open>
  C2 as amended: no interval is checked, whatever its sign. \<^verbatim>\<open>profile_block\<close> stores the
  interval, and the whole \<^verbatim>\<open>with\<close> statement then does the same for any two intervals,
  leaving handles that differ in the stored interval only (for a block that does not read
  the interval off the handle). \<^verbatim>\<open>profile_function\<close> hands the interval to
  \<^verbatim>\<open>memory_usage\<close> as it is and uses it nowhere else: for two intervals on which
  \<^verbatim>\<open>memory_usage\<close> does the same with the work, the whole call does the same. Neither
  scope raises \<^verbatim>\<open>InvalidConfigError\<close> of its own: it can only come from
  \<^verbatim>\<open>memory_usage\<close>, or from the block.
\<close>

theorem interval_is_never_checked:
  assumes "\<forall>h k. body (h\<lparr>bp_interval := k\<rparr>) = body h"
    and "memory_usage (func args) i = memory_usage (func args) j"
  shows "profile_function self ops i memory_usage fname func args w
           = profile_function self ops j memory_usage fname func args w
       \<and> bp_interval (profile_block self i) = i
       \<and> with_stmt self (profile_block self i) body w
           = (case with_stmt self (profile_block self j) body w of
                ((r, h), w') \<Rightarrow> ((r, h\<lparr>bp_interval := i\<rparr>), w'))
       \<and> (fst (profile_function self ops i memory_usage fname func args w)
              = Inl InvalidConfigError
            \<longrightarrow> (\<exists>w'. fst (memory_usage (func args) i w') = Inl InvalidConfigError))
       \<and> (fst (fst (with_stmt self (profile_block self i) body w)) = Inl InvalidConfigError
            \<longrightarrow> (\<exists>h w'. fst (body h w') = Inl InvalidConfigError))"
proof (intro conjI)
  show "profile_function self ops i memory_usage fname func args w
           = profile_function self ops j memory_usage fname func args w"
    by (simp add: profile_function_def wrapper_def assms(2))
  show "bp_interval (profile_block self i) = i"
    by (simp add: profile_block_def)
  have "profile_block self i = (profile_block self j)\<lparr>bp_interval := i\<rparr>"
    by (simp add: profile_block_def)
  then show "with_stmt self (profile_block self i) body w
           = (case with_stmt self (profile_block self j) body w of
                ((r, h), w') \<Rightarrow> ((r, h\<lparr>bp_interval := i\<rparr>), w'))"
    using with_stmt_interval[OF assms(1)] by simp
  show "fst (profile_function self ops i memory_usage fname func args w)
              = Inl InvalidConfigError
            \<longrightarrow> (\<exists>w'. fst (memory_usage (func args) i w') = Inl InvalidConfigError)"
    unfolding profile_function_def by (rule impI) (rule wrapper_invalid_config_origin)
  show "fst (fst (with_stmt self (profile_block self i) body w)) = Inl InvalidConfigError
            \<longrightarrow> (\<exists>h w'. fst (body h w') = Inl InvalidConfigError)"
    using with_stmt_outcome[of self "profile_block self i" body w] by auto
qed

theorem interval_is_never_checked_witness:
  "profile_function example_profiler example_ops 0
       (library_memory_usage 0 [(100, 0), (110, 1), (130, 2), (125, 3), (120, 4)])
       (Some ''work'') (snapshot_work (Obj ''done'')) ()
       (example_world 125829120 2 (Some (3/2)))
     = profile_function example_profiler example_ops (1/10)
       (library_memory_usage 0 [(100, 0), (110, 1), (130, 2), (125, 3), (120, 4)])
       (Some ''work'') (snapshot_work (Obj ''done'')) ()
       (example_world 125829120 2 (Some (3/2)))
   \<and> bp_interval (profile_block example_profiler 0) = 0
   \<and> with_stmt example_profiler (profile_block example_profiler 0) snapshot_body
         (example_world 125829120 2 (Some (3/2)))
     = (case with_stmt example_profiler (profile_block example_profiler (1/10)) snapshot_body
              (example_world 125829120 2 (Some (3/2))) of
          ((r, h), w') \<Rightarrow> ((r, h\<lparr>bp_interval := 0\<rparr>), w'))"
proof -
  have a: "\<forall>h k. snapshot_body (h\<lparr>bp_interval := k\<rparr>) = snapshot_body h"
    by (simp add: snapshot_body_def)
  have b: "library_memory_usage 0 [(100, 0), (110, 1), (130, 2), (125, 3), (120, 4)]
             (snapshot_work (Obj ''done'') ()) 0
         = (library_memory_usage 0 [(100, 0), (110, 1), (130, 2), (125, 3), (120, 4)]
             (snapshot_work (Obj ''done'') ()) (1/10) :: string pyval list action)"
    by (simp add: library_memory_usage_def)
  show ?thesis
    using interval_is_never_checked[where body=snapshot_body
        and memory_usage="library_memory_usage 0 [(100, 0), (110, 1), (130, 2), (125, 3), (120, 4)]"
        and func="snapshot_work (Obj ''done'')" and args="()" and i=0 and j="1/10"
        and self=example_profiler and ops=example_ops and fname="Some ''work''"
        and w="example_world 125829120 2 (Some (3/2))", OF a b]
    by simp
qed

subsection \<open>C3: the summary after the scope has closed\<close>

text \<open>
  C3 says that after the scope closes the caller can retrieve start memory, end memory,
  delta and duration, for instance from the handle. In the code the summary is only the
  value returned by \<^verbatim>\<open>__exit__\<close>, which the \<^verbatim>\<open>with\<close> statement consumes; the handle keeps
  the interval, the start memory, the empty list and the start time. Two runs whose end
  memory is 120 MB and 300 MB and whose duration is 2 s and 10 s leave the caller with
  the same outcome and the same handle, while the summaries computed on exit differ.
\<close>

theorem block_summary_not_retrievable:
  "fst (with_stmt example_profiler (profile_block example_profiler (1/10)) idle_body
         (example_world 125829120 2 (Some (3/2))))
   = (Inr (), \<lparr>bp_interval = 1/10, bp_start_mem = Some 100, bp_measurements = [],
               bp_start_time = Some 0\<rparr>)
   \<and> fst (with_stmt example_profiler (profile_block example_profiler (1/10)) idle_body
         (example_world 314572800 10 (Some (3/2))))
   = (Inr (), \<lparr>bp_interval = 1/10, bp_start_mem = Some 100, bp_measurements = [],
               bp_start_time = Some 0\<rparr>)
   \<and> fst (block_exit example_profiler
        \<lparr>bp_interval = 1/10, bp_start_mem = Some 100, bp_measurements = [], bp_start_time = Some 0\<rparr>
        (snd (block_enter (profile_block example_profiler (1/10)) (example_world 125829120 2 (Some (3/2))))))
     = Inr [(''start_mem'', 100), (''end_mem'', 120), (''mem_diff'', 20), (''duration'', 2)]
   \<and> fst (block_exit example_profiler
        \<lparr>bp_interval = 1/10, bp_start_mem = Some 100, bp_measurements = [], bp_start_time = Some 0\<rparr>
        (snd (block_enter (profile_block example_profiler (1/10)) (example_world 314572800 10 (Some (3/2))))))
     = Inr [(''start_mem'', 100), (''end_mem'', 300), (''mem_diff'', 200), (''duration'', 10)]"
  by (simp add: eval_defs example_defs)

subsection \<open>C4: initial and peak memory\<close>

text \<open>
  C4 says that a call with a positive interval whose work returns produces a summary with
  \<open>initial \<le> peak\<close> and a delta of peak minus initial. The code produces no summary: the
  result of \<^verbatim>\<open>memory_usage\<close> is the pair (samples, value), \<^verbatim>\<open>result[:-1]\<close> is a tuple
  holding the list of samples, and \<^verbatim>\<open>sum\<close> over it raises \<^verbatim>\<open>TypeError\<close>. Here the process
  has 100 MB resident before the call and the samples rise to 130 MB.
\<close>

theorem peak_is_never_reported:
  "(0::real) < 1/10
   \<and> fst (work_returning (Obj ''done'') () (example_world 125829120 2 (Some (3/2))))
       = Inr (Obj ''done'')
   \<and> fst (wrapper example_profiler example_ops (1/10)
          (library_memory_usage 0 [(100, 0), (110, 1), (130, 2), (125, 3), (120, 4)])
          (Some ''work'') (work_returning (Obj ''done'')) ()
          (example_world 125829120 2 (Some (3/2)))) = Inl TypeError"
  by (simp add: eval_defs example_defs)

subsection \<open>C5: work that ends before the first poll\<close>

text \<open>
  C5 says that when the work ends before the first poll interval the summary is still
  well formed, peak and average falling back to the initial measurement. The code has no
  such fallback and produces no summary here either: in this run the library has run the
  short work seven times and hands back the three samples of its last run, all taken at
  the initial 100 MB, and the call ends in the \<^verbatim>\<open>TypeError\<close> of \<^verbatim>\<open>sum\<close>.
\<close>

theorem quick_work_yields_no_summary:
  "fst (wrapper example_profiler example_ops (1/10)
          (library_memory_usage 6 [(100, 0), (100, 0), (100, 0)])
          (Some ''work'') (work_returning (Obj ''done'')) ()
          (example_world 104857600 0 (Some (3/2)))) = Inl TypeError"
  by (simp add: run_again_work_returning library_memory_usage_def eval_defs example_world_def
      example_profiler_def example_ops_def)

subsection \<open>C6: the value and the summary\<close>

text \<open>
  C6 says that calling the wrapped function returns the pair of the original function's
  return value on the arguments and the summary. The function that returns its argument
  returns 42 on 42; wrapped, it is run and the call raises \<^verbatim>\<open>TypeError\<close> instead of
  returning a pair.
\<close>

theorem wrapped_call_returns_no_pair:
  "fst (echo_work (Num 42) (example_world 125829120 2 (Some (3/2)))) = Inr (Num 42 :: string pyval)
   \<and> fst (wrapper example_profiler example_ops (1/10)
          (library_memory_usage 0 [(100, 0), (101, 1), (102, 2), (103, 3), (104, 4)])
          (Some ''echo'') echo_work (Num 42 :: string pyval)
          (example_world 125829120 2 (Some (3/2)))) = Inl TypeError"
  by (simp add: eval_defs example_defs)

subsection \<open>C7: the average\<close>

text \<open>
  C7 says that the average of the summary lies between the minimum and the maximum of the
  collected series. The code computes no average: the series it builds is the tuple
  holding the list of samples, of which \<^verbatim>\<open>max\<close> is that list and \<^verbatim>\<open>sum\<close> is undefined, so
  the call ends before \<^verbatim>\<open>avg_mem\<close> exists.
\<close>

theorem average_is_never_computed:
  "py_max [Samples [(100, 0), (100, 1), (100, 2)] :: string pyval]
       = Inr (Samples [(100, 0), (100, 1), (100, 2)])
   \<and> py_sum example_ops [Samples [(100, 0), (100, 1), (100, 2)] :: string pyval] = Inl TypeError
   \<and> fst (wrapper example_profiler example_ops (1/2)
          (library_memory_usage 0 [(100, 0), (100, 1), (100, 2)])
          (Some ''work'') (work_returning (Obj ''done'')) ()
          (example_world 104857600 1 (Some (3/2)))) = Inl TypeError"
  by (simp add: eval_defs example_defs)

subsection \<open>C8: the snapshot\<close>

text \<open>
  C8: if the operating system's answer about the process's memory cannot be had, the
  snapshot fails with \<^verbatim>\<open>OSQueryError\<close>; otherwise it returns resident size, virtual size
  and percentage of system memory, from one synchronous query, with no polling and no
  other side effect. The query is made of \<^verbatim>\<open>memory_info()\<close> and \<^verbatim>\<open>memory_percent()\<close> on the
  one process handle: each is called at most once, the second only if the first
  answered, and beside the two call counters the world is left as it was: no log line,
  no clock reading.
\<close>

theorem snapshot_fails_or_returns_three_values:
  "fst (memory_snapshot w) =
     (case mem_src w (mem_calls w) of
        None \<Rightarrow> Inl OSQueryError
      | Some mi \<Rightarrow>
          (case pct_src w (pct_calls w) of
             None \<Rightarrow> Inl OSQueryError
           | Some p \<Rightarrow> Inr [(''rss'', to_mb (rss mi)), (''vms'', to_mb (vms mi)), (''percent'', p)]))
   \<and> snd (memory_snapshot w) =
     (case mem_src w (mem_calls w) of
        None \<Rightarrow> w\<lparr>mem_calls := Suc (mem_calls w)\<rparr>
      | Some mi \<Rightarrow> w\<lparr>mem_calls := Suc (mem_calls w), pct_calls := Suc (pct_calls w)\<rparr>)"
  by (simp add: memory_snapshot_def run_simps split: option.splits)

subsection \<open>C9: the field timestamps\<close>

text \<open>
  C9 says that when the result of \<^verbatim>\<open>memory_usage\<close> holds at least one entry besides the
  return value, the returned summary has \<^verbatim>\<open>timestamps\<close> equal to the first measurement,
  because of the unpacking \<^verbatim>\<open>result[:-1], result[0], result[-1]\<close>. The unpacking does
  bind \<^verbatim>\<open>timestamps\<close> to the first entry of \<^verbatim>\<open>mem_measurements\<close>, but for the pair that
  \<^verbatim>\<open>memory_usage\<close> returns that entry is the whole list of samples, and no summary is
  returned: the call raises \<^verbatim>\<open>TypeError\<close>.
\<close>

theorem timestamps_never_returned:
  "unpack [Samples [(100, 0), (140, 1), (150, 2), (145, 3), (120, 4)], Obj ''done'']
     = Inr ([Samples [(100, 0), (140, 1), (150, 2), (145, 3), (120, 4)]],
            Samples [(100, 0), (140, 1), (150, 2), (145, 3), (120, 4)], Obj ''done'')
   \<and> fst (wrapper example_profiler example_ops (1/10)
          (library_memory_usage 0 [(100, 0), (140, 1), (150, 2), (145, 3), (120, 4)])
          (Some ''work'') (work_returning (Obj ''done'')) ()
          (example_world 125829120 5 (Some (3/2)))) = Inl TypeError"
  by (simp add: eval_defs example_defs)

subsection \<open>C10: the block scope does not poll\<close>

text \<open>
  C10: for every interval and block, the block scope stores the interval and never
  reads it, records no sample between entry and exit, and computes the exit summary from
  the two point measurements alone. Entry makes one memory query and one clock reading
  and stores them beside the interval and the empty list; exit makes one more of each
  and its summary is a function of these four numbers, whatever the interval; after the
  statement the list of measurements is still empty.
\<close>

theorem block_scope_takes_two_point_measurements:
  assumes "mem_src w (mem_calls w) = Some mi1"
    and "mem_src w2 (mem_calls w2) = Some mi2"
  shows "block_enter (profile_block self interval) w =
           (Inr \<lparr>bp_interval = interval, bp_start_mem = Some (to_mb (rss mi1)),
                 bp_measurements = [], bp_start_time = Some (clock_src w (clock_calls w))\<rparr>,
            w\<lparr>mem_calls := Suc (mem_calls w), clock_calls := Suc (clock_calls w)\<rparr>)
       \<and> fst (block_exit self \<lparr>bp_interval = interval, bp_start_mem = Some s,
                           bp_measurements = ms, bp_start_time = Some t\<rparr> w2) =
           Inr [(''start_mem'', s), (''end_mem'', to_mb (rss mi2)),
                (''mem_diff'', to_mb (rss mi2) - s),
                (''duration'', clock_src w2 (clock_calls w2) - t)]
       \<and> mem_calls (snd (block_exit self \<lparr>bp_interval = interval, bp_start_mem = Some s,
                           bp_measurements = ms, bp_start_time = Some t\<rparr> w2)) = Suc (mem_calls w2)
       \<and> bp_measurements (snd (fst (with_stmt self (profile_block self interval) body w))) = []"
proof (intro conjI)
  show "block_enter (profile_block self interval) w =
           (Inr \<lparr>bp_interval = interval, bp_start_mem = Some (to_mb (rss mi1)),
                 bp_measurements = [], bp_start_time = Some (clock_src w (clock_calls w))\<rparr>,
            w\<lparr>mem_calls := Suc (mem_calls w), clock_calls := Suc (clock_calls w)\<rparr>)"
    using assms(1) by (simp add: block_enter_def profile_block_def run_simps)
  then show "bp_measurements (snd (fst (with_stmt self (profile_block self interval) body w))) = []"
    by (simp add: with_stmt_def split: prod.splits sum.splits)
  show "fst (block_exit self \<lparr>bp_interval = interval, bp_start_mem = Some s,
                           bp_measurements = ms, bp_start_time = Some t\<rparr> w2) =
           Inr [(''start_mem'', s), (''end_mem'', to_mb (rss mi2)),
                (''mem_diff'', to_mb (rss mi2) - s),
                (''duration'', clock_src w2 (clock_calls w2) - t)]"
    using assms(2) by (simp add: block_exit_def run_simps del: log_all.simps)
  show "mem_calls (snd (block_exit self \<lparr>bp_interval = interval, bp_start_mem = Some s,
                           bp_measurements = ms, bp_start_time = Some t\<rparr> w2)) = Suc (mem_calls w2)"
    using assms(2) by (simp add: block_exit_def run_simps log_all_snd del: log_all.simps)
qed

theorem block_scope_takes_two_point_measurements_witness:
  "block_enter (profile_block example_profiler (1/10)) (example_world 125829120 2 (Some (3/2))) =
           (Inr \<lparr>bp_interval = 1/10, bp_start_mem = Some 100,
                 bp_measurements = [], bp_start_time = Some 0\<rparr>,
            (example_world 125829120 2 (Some (3/2)))\<lparr>mem_calls := 1, clock_calls := 1\<rparr>)
   \<and> fst (block_exit example_profiler \<lparr>bp_interval = 1/10, bp_start_mem = Some 100,
                           bp_measurements = [], bp_start_time = Some 0\<rparr>
            ((example_world 125829120 2 (Some (3/2)))\<lparr>mem_calls := 1, clock_calls := 1\<rparr>)) =
           Inr [(''start_mem'', 100), (''end_mem'', 120), (''mem_diff'', 20), (''duration'', 2)]
   \<and> mem_calls (snd (block_exit example_profiler \<lparr>bp_interval = 1/10, bp_start_mem = Some 100,
                           bp_measurements = [], bp_start_time = Some 0\<rparr>
            ((example_world 125829120 2 (Some (3/2)))\<lparr>mem_calls := 1, clock_calls := 1\<rparr>))) = 2
   \<and> bp_measurements (snd (fst (with_stmt example_profiler (profile_block example_profiler (1/10))
          idle_body (example_world 125829120 2 (Some (3/2)))))) = []"
proof -
  have a: "mem_src (example_world 125829120 2 (Some (3/2))) (mem_calls (example_world 125829120 2 (Some (3/2))))
      = Some \<lparr>rss = 104857600, vms = 209715200\<rparr>"
    by (rule example_mem)
  have b: "mem_src ((example_world 125829120 2 (Some (3/2)))\<lparr>mem_calls := 1, clock_calls := 1\<rparr>)
             (mem_calls ((example_world 125829120 2 (Some (3/2)))\<lparr>mem_calls := 1, clock_calls := 1\<rparr>))
      = Some \<lparr>rss = 125829120, vms = 209715200\<rparr>"
    by (simp add: example_world_def)
  have c: "to_mb 104857600 = 100" "to_mb 125829120 = 120"
    by (simp_all add: to_mb_def)
  show ?thesis
    using block_scope_takes_two_point_measurements[OF a b, of example_profiler "1/10" 100 "[]" 0 idle_body]
    by (simp add: c example_world_def)
qed

end
